theory Spec2Isabelle
  imports Complex_Main "HOL-Library.Sublist"
begin

section \<open>The order ledger of the dashboard: data model\<close>

text \<open>
  The ledger lives in \<^verbatim>\<open>window.ordersManager.ordersData\<close>: an array of per-symbol
  objects \<^verbatim>\<open>{symbol, active: {orders, positions}, closed}\<close>. The code reads every
  level of that object defensively (\<^verbatim>\<open>symbolData.active?.orders || []\<close>), so each
  level is optional in the model as well.

  Numbers. An identifier is whatever the \<^verbatim>\<open>id\<close> property holds: absent
  (\<^verbatim>\<open>undefined\<close>), \<^verbatim>\<open>null\<close>, an integer, or the value \<^verbatim>\<open>-Infinity\<close> that
  \<^verbatim>\<open>Math.max()\<close> returns for no arguments. \<open>Fin n\<close> stands for the double whose
  value is the integer \<open>n\<close>; comparison and maximum of such doubles are those of the
  integers, and \<open>plus1\<close> below rounds as the addition of doubles does. The other numeric
  properties (price, amount, ...) are reals; no operation of the ledger computes with
  them. A timestamp \<^verbatim>\<open>"YYYY-MM-DD HH:MM:SS"\<close> is the number of seconds it denotes
  on the wall clock since the epoch, so that the order of the strings is the order of
  the numbers.
\<close>

datatype jsnum = NegInfinity | Fin int

datatype jsid = Undefined | Null | Number jsnum

type_synonym timestamp = int

record entry =
  oid :: jsid
  symbol :: string
  exchange :: string
  side :: string
  type :: string
  open_type :: string
  leverage :: real
  price :: real
  amount :: real
  stop_loss :: real
  take_profit :: real
  fee :: real
  amount_usdt :: real
  pls :: real
  pls_percentage :: real
  price_liquidation :: real
  take_profit_pls :: real
  stop_loss_pls :: real
  date :: "timestamp option"
  close_date :: "timestamp option"

record activeData =
  orders :: "entry list option"
  positions :: "entry list option"

record symbolData =
  symbol_sd :: string
  active :: "activeData option"
  closed :: "entry list option"

text \<open>
  The application state the handlers read and write: the ledger, the two lists of the
  reference catalog (\<^verbatim>\<open>window.app.availableExchanges\<close>, \<^verbatim>\<open>availableSymbols\<close>),
  the confirmation modal (whether its elements are in the document, whether it is
  displayed, and the \<^verbatim>\<open>dataset.operation\<close> and \<^verbatim>\<open>dataset.orderData\<close> of its
  confirm button, which are only ever set together), and the bodies of the
  \<^verbatim>\<open>POST /api/orders\<close> requests made so far.
\<close>

record app =
  ordersData :: "symbolData list"
  availableExchanges :: "string list"
  availableSymbols :: "string list"
  modalElements :: bool
  modalDisplay :: bool
  dataset :: "(string \<times> entry) option"
  posted :: "symbolData list list"

datatype error =
  MissingRequiredFields | InvalidExchange | InvalidSymbol | InvalidSide | InvalidType

datatype outcome = Saved | NoForm | Rejected error

subsection \<open>Reading the collections\<close>

text \<open>\<^verbatim>\<open>symbolData.active?.orders || []\<close> and its two siblings.\<close>

fun orEmpty :: "entry list option \<Rightarrow> entry list" where
  "orEmpty None = []"
| "orEmpty (Some xs) = xs"

text \<open>\<^verbatim>\<open>symbolData.active?.orders\<close>: \<open>None\<close> when either level is absent.\<close>

definition activeOrders :: "symbolData \<Rightarrow> entry list option" where
  "activeOrders sd = (case active sd of None \<Rightarrow> None | Some a \<Rightarrow> orders a)"

definition activePositions :: "symbolData \<Rightarrow> entry list option" where
  "activePositions sd = (case active sd of None \<Rightarrow> None | Some a \<Rightarrow> positions a)"

definition ordersOf :: "symbolData \<Rightarrow> entry list" where
  "ordersOf sd = orEmpty (activeOrders sd)"

definition positionsOf :: "symbolData \<Rightarrow> entry list" where
  "positionsOf sd = orEmpty (activePositions sd)"

definition closedOf :: "symbolData \<Rightarrow> entry list" where
  "closedOf sd = orEmpty (closed sd)"

definition entriesOf :: "symbolData \<Rightarrow> entry list" where
  "entriesOf sd = ordersOf sd @ positionsOf sd @ closedOf sd"

definition allEntries :: "symbolData list \<Rightarrow> entry list" where
  "allEntries data = concat (map entriesOf data)"

subsection \<open>JavaScript arithmetic on identifiers\<close>

text \<open>\<^verbatim>\<open>o.id || 0\<close>: absent, \<^verbatim>\<open>null\<close> and \<^verbatim>\<open>0\<close> are falsy, \<^verbatim>\<open>-Infinity\<close> is not.\<close>

fun idOr0 :: "jsid \<Rightarrow> jsnum" where
  "idOr0 Undefined = Fin 0"
| "idOr0 Null = Fin 0"
| "idOr0 (Number n) = n"

fun jsmax :: "jsnum \<Rightarrow> jsnum \<Rightarrow> jsnum" where
  "jsmax NegInfinity y = y"
| "jsmax x NegInfinity = x"
| "jsmax (Fin a) (Fin b) = Fin (max a b)"

text \<open>\<^verbatim>\<open>Math.max(...xs)\<close>; with no argument the result is \<^verbatim>\<open>-Infinity\<close>.\<close>

fun mathMax :: "jsnum list \<Rightarrow> jsnum" where
  "mathMax [] = NegInfinity"
| "mathMax (x # xs) = jsmax x (mathMax xs)"

text \<open>
  \<^verbatim>\<open>n + 1\<close> on doubles; \<^verbatim>\<open>-Infinity + 1\<close> is \<^verbatim>\<open>-Infinity\<close>. From \<open>-2^53\<close> up to
  \<open>2^53 - 1\<close> the sum is exact. At \<open>2^53\<close> it is not a double any more and is rounded
  to the nearer double, a tie going to the even mantissa: \<open>2^53 + 1\<close> is \<open>2^53\<close> again.
  Below \<open>2^54\<close> in magnitude the doubles are the even integers and the sum is a tie
  between \<open>n\<close> and \<open>n + 2\<close>; from there on \<open>n\<close> is the nearer one.
\<close>

fun plus1 :: "jsnum \<Rightarrow> jsnum" where
  "plus1 NegInfinity = NegInfinity"
| "plus1 (Fin n) =
     (if - 9007199254740992 \<le> n \<and> n < 9007199254740992 then Fin (n + 1)
      else if \<bar>n\<bar> < 18014398509481984 \<and> odd (n div 2) then Fin (n + 2)
      else Fin n)"

text \<open>\<^verbatim>\<open>parseFloat(s) || d\<close>, the input given as the number it parses to
  (\<open>None\<close> for \<^verbatim>\<open>NaN\<close>).\<close>

fun orDefault :: "real option \<Rightarrow> real \<Rightarrow> real" where
  "orDefault None d = d"
| "orDefault (Some v) d = (if v = 0 then d else v)"

section \<open>OrdersManager.saveNewOrder\<close>

record newOrderForm =
  newOrderSymbol :: string
  newOrderExchange :: string
  newOrderSide :: string
  newOrderType :: string
  newOrderOpenType :: string
  newOrderLeverage :: "real option"
  newOrderPrice :: "real option"
  newOrderAmount :: "real option"
  newOrderStopLoss :: "real option"
  newOrderTakeProfit :: "real option"
  newOrderFee :: "real option"
  newOrderAmountUsdt :: "real option"

text \<open>The object literal \<^verbatim>\<open>orderData\<close>, before the identifier is assigned.\<close>

definition formOrder :: "newOrderForm \<Rightarrow> timestamp \<Rightarrow> entry" where
  "formOrder f now =
     \<lparr>oid = Undefined,
      symbol = newOrderSymbol f,
      exchange = newOrderExchange f,
      side = newOrderSide f,
      type = newOrderType f,
      open_type = newOrderOpenType f,
      leverage = orDefault (newOrderLeverage f) 1,
      price = orDefault (newOrderPrice f) 0,
      amount = orDefault (newOrderAmount f) 0,
      stop_loss = orDefault (newOrderStopLoss f) 0,
      take_profit = orDefault (newOrderTakeProfit f) 0,
      fee = orDefault (newOrderFee f) (1 / 1000),
      amount_usdt = orDefault (newOrderAmountUsdt f) 0,
      pls = 0,
      pls_percentage = 0,
      price_liquidation = 0,
      take_profit_pls = 0,
      stop_loss_pls = 0,
      date = Some now,
      close_date = None\<rparr>"

text \<open>The checks of lines 766 to 833, in the order of the source. (Between the first
  and the second the source fills in an empty \<^verbatim>\<open>open_type\<close>; no check reads it, and
  \<open>saveNewOrder\<close> below does it once all of them have passed.)\<close>

definition validateNewOrder :: "app \<Rightarrow> entry \<Rightarrow> error option" where
  "validateNewOrder a od =
     (if symbol od = [] \<or> exchange od = [] \<or> side od = [] \<or> type od = []
        then Some MissingRequiredFields
      else if exchange od \<notin> set (availableExchanges a) then Some InvalidExchange
      else if symbol od \<notin> set (availableSymbols a) then Some InvalidSymbol
      else if side od \<notin> set [''long'', ''short''] then Some InvalidSide
      else if type od \<notin> set [''market'', ''limit''] then Some InvalidType
      else None)"

text \<open>\<^verbatim>\<open>Math.max(...this.ordersData.flatMap(...))\<close>, lines 838 to 844.\<close>

definition maxId :: "symbolData list \<Rightarrow> jsnum" where
  "maxId data =
     mathMax (concat (map (\<lambda>sd. map (\<lambda>e. idOr0 (oid e)) (ordersOf sd)
                               @ map (\<lambda>e. idOr0 (oid e)) (positionsOf sd)
                               @ map (\<lambda>e. idOr0 (oid e)) (closedOf sd)) data))"

text \<open>The body of the loop of lines 849 to 869 for the Symbol Ledger that matches.\<close>

definition addToActive :: "entry \<Rightarrow> symbolData \<Rightarrow> symbolData" where
  "addToActive od sd =
     (let a = (case active sd of None \<Rightarrow> \<lparr>orders = Some [], positions = Some []\<rparr>
               | Some a \<Rightarrow> a)
      in if type od = ''market''
           then sd\<lparr>active := Some (a\<lparr>positions := Some (orEmpty (positions a) @ [od])\<rparr>)\<rparr>
         else if type od = ''limit''
           then sd\<lparr>active := Some (a\<lparr>orders := Some (orEmpty (orders a) @ [od])\<rparr>)\<rparr>
         else sd\<lparr>active := Some a\<rparr>)"

text \<open>
  The loop itself: it stops at the first Symbol Ledger whose symbol is the order's
  (\<^verbatim>\<open>break\<close>). The flag is \<^verbatim>\<open>symbolExists\<close>.
\<close>

fun addToSymbol :: "entry \<Rightarrow> symbolData list \<Rightarrow> bool \<times> symbolData list" where
  "addToSymbol od [] = (False, [])"
| "addToSymbol od (sd # rest) =
     (if symbol_sd sd = symbol od then (True, addToActive od sd # rest)
      else (fst (addToSymbol od rest), sd # snd (addToSymbol od rest)))"

text \<open>The Symbol Ledger pushed when \<^verbatim>\<open>symbolExists\<close> stayed false, lines 871 to 879.\<close>

definition newSymbolEntry :: "entry \<Rightarrow> symbolData" where
  "newSymbolEntry od =
     \<lparr>symbol_sd = symbol od,
      active = Some \<lparr>orders = Some (if type od = ''limit'' then [od] else []),
                     positions = Some (if type od = ''market'' then [od] else [])\<rparr>,
      closed = Some []\<rparr>"

definition insertOrder :: "entry \<Rightarrow> symbolData list \<Rightarrow> symbolData list" where
  "insertOrder od data =
     (if fst (addToSymbol od data) then snd (addToSymbol od data)
      else data @ [newSymbolEntry od])"

text \<open>
  The whole handler. The form is \<open>None\<close> when the document has no
  \<^verbatim>\<open>addOrderForm\<close>; \<open>now\<close> is the reading of the clock. The request to the server is
  recorded; what happens when it is answered (the form is hidden, the table drawn again)
  does not touch the ledger.
\<close>

definition saveNewOrder :: "newOrderForm option \<Rightarrow> timestamp \<Rightarrow> app \<Rightarrow> outcome \<times> app" where
  "saveNewOrder form now a =
     (case form of None \<Rightarrow> (NoForm, a)
      | Some f \<Rightarrow>
          (let od0 = formOrder f now in
           case validateNewOrder a od0 of Some e \<Rightarrow> (Rejected e, a)
           | None \<Rightarrow>
               (let od1 = (if open_type od0 = [] then od0\<lparr>open_type := ''isolated''\<rparr> else od0);
                    od = od1\<lparr>oid := Number (plus1 (maxId (ordersData a)))\<rparr>;
                    data = insertOrder od (ordersData a)
                in (Saved, a\<lparr>ordersData := data, posted := posted a @ [data]\<rparr>))))"

section \<open>ModalsManager.performSaveOperation\<close>

text \<open>\<^verbatim>\<open>xs.findIndex(pred)\<close>, with \<open>None\<close> for \<^verbatim>\<open>-1\<close>.\<close>

fun findIndex :: "('a \<Rightarrow> bool) \<Rightarrow> 'a list \<Rightarrow> nat option" where
  "findIndex P [] = None"
| "findIndex P (x # xs) =
     (if P x then Some 0 else (case findIndex P xs of None \<Rightarrow> None | Some i \<Rightarrow> Some (Suc i)))"

text \<open>
  Lines 144 to 163 (and 166 to 188): the entry with the payload's identifier is replaced
  where it stands, or the payload is pushed. \<^verbatim>\<open>===\<close> on identifiers is equality:
  \<^verbatim>\<open>undefined === undefined\<close> and \<^verbatim>\<open>null === null\<close> hold.
\<close>

definition upsert :: "entry \<Rightarrow> entry list \<Rightarrow> entry list" where
  "upsert od xs =
     (case findIndex (\<lambda>p. oid p = oid od) xs of
        Some i \<Rightarrow> xs[i := od]
      | None \<Rightarrow> xs @ [od])"

definition setPositions :: "entry list \<Rightarrow> symbolData \<Rightarrow> symbolData" where
  "setPositions xs sd =
     sd\<lparr>active := (case active sd of None \<Rightarrow> None | Some a \<Rightarrow> Some (a\<lparr>positions := Some xs\<rparr>))\<rparr>"

definition setOrders :: "entry list \<Rightarrow> symbolData \<Rightarrow> symbolData" where
  "setOrders xs sd =
     sd\<lparr>active := (case active sd of None \<Rightarrow> None | Some a \<Rightarrow> Some (a\<lparr>orders := Some xs\<rparr>))\<rparr>"

text \<open>
  The body of the loop for the Symbol Ledger that matches, with the value of
  \<^verbatim>\<open>orderUpdated\<close>. The first branch needs \<^verbatim>\<open>type === "market"\<close> and an existing
  \<^verbatim>\<open>active.positions\<close>, the second \<^verbatim>\<open>type === "limit"\<close> and an existing
  \<^verbatim>\<open>active.orders\<close>; the third only logs.
\<close>

definition saveInSymbol :: "entry \<Rightarrow> symbolData \<Rightarrow> bool \<times> symbolData" where
  "saveInSymbol od sd =
     (case (if type od = ''market'' then activePositions sd else None) of
        Some ps \<Rightarrow> (True, setPositions (upsert od ps) sd)
      | None \<Rightarrow>
          (case (if type od = ''limit'' then activeOrders sd else None) of
             Some os \<Rightarrow> (True, setOrders (upsert od os) sd)
           | None \<Rightarrow> (False, sd)))"

fun saveLoop :: "entry \<Rightarrow> symbolData list \<Rightarrow> bool \<times> symbolData list" where
  "saveLoop od [] = (False, [])"
| "saveLoop od (sd # rest) =
     (if symbol_sd sd = symbol od
        then (fst (saveInSymbol od sd), snd (saveInSymbol od sd) # rest)
      else (fst (saveLoop od rest), sd # snd (saveLoop od rest)))"

text \<open>\<^verbatim>\<open>newSymbolData\<close>, lines 200 to 217: no \<^verbatim>\<open>closed\<close>, and only the one active
  collection the type names.\<close>

definition newSymbolData :: "entry \<Rightarrow> symbolData" where
  "newSymbolData od =
     \<lparr>symbol_sd = symbol od,
      active = Some
        (if type od = ''market'' then \<lparr>orders = None, positions = Some [od]\<rparr>
         else if type od = ''limit'' then \<lparr>orders = Some [od], positions = None\<rparr>
         else \<lparr>orders = None, positions = None\<rparr>),
      closed = None\<rparr>"

definition saveData :: "entry \<Rightarrow> symbolData list \<Rightarrow> symbolData list" where
  "saveData od data =
     (if fst (saveLoop od data) then snd (saveLoop od data)
      else data @ [newSymbolData od])"

text \<open>
  The handler, up to the request. When the server answers the request with success
  the handler's callback calls \<^verbatim>\<open>loadOrdersData\<close>; the arrival of what the server
  sends back then is an event of its own, \<open>OrdersLoaded\<close> below.
\<close>

definition performSaveOperation :: "entry \<Rightarrow> app \<Rightarrow> outcome \<times> app" where
  "performSaveOperation od a =
     (if symbol od = [] \<or> exchange od = [] \<or> side od = [] \<or> type od = []
        then (Rejected MissingRequiredFields, a)
      else (let data = saveData od (ordersData a)
            in (Saved, a\<lparr>ordersData := data, posted := posted a @ [data]\<rparr>)))"

section \<open>ModalsManager.performCloseOperation\<close>

text \<open>
  For the Symbol Ledger that matches: the filter on the collection the type names
  (when that collection exists), then, whatever the filter found, the payload stamped
  with the clock and pushed to \<^verbatim>\<open>closed\<close>.
\<close>

definition removeFromActive :: "entry \<Rightarrow> symbolData \<Rightarrow> symbolData" where
  "removeFromActive od sd =
     (case (if type od = ''market'' then activePositions sd else None) of
        Some ps \<Rightarrow> setPositions (filter (\<lambda>p. oid p \<noteq> oid od) ps) sd
      | None \<Rightarrow>
          (case (if type od = ''limit'' then activeOrders sd else None) of
             Some os \<Rightarrow> setOrders (filter (\<lambda>p. oid p \<noteq> oid od) os) sd
           | None \<Rightarrow> sd))"

definition closeInSymbol :: "entry \<Rightarrow> timestamp \<Rightarrow> symbolData \<Rightarrow> symbolData" where
  "closeInSymbol od now sd =
     (removeFromActive od sd)\<lparr>closed := Some (closedOf sd @ [od\<lparr>close_date := Some now\<rparr>])\<rparr>"

fun closeLoop :: "entry \<Rightarrow> timestamp \<Rightarrow> symbolData list \<Rightarrow> symbolData list" where
  "closeLoop od now [] = []"
| "closeLoop od now (sd # rest) =
     (if symbol_sd sd = symbol od then closeInSymbol od now sd # rest
      else sd # closeLoop od now rest)"

definition performCloseOperation :: "entry \<Rightarrow> timestamp \<Rightarrow> app \<Rightarrow> app" where
  "performCloseOperation od now a =
     (let data = closeLoop od now (ordersData a)
      in a\<lparr>ordersData := data, posted := posted a @ [data]\<rparr>)"

section \<open>Staging and confirming\<close>

text \<open>
  \<^verbatim>\<open>JSON.parse(JSON.stringify(orderData))\<close>: \<^verbatim>\<open>-Infinity\<close> is written as
  \<^verbatim>\<open>null\<close>, an absent property stays absent, everything else comes back as it was.
\<close>

fun jsonId :: "jsid \<Rightarrow> jsid" where
  "jsonId (Number NegInfinity) = Null"
| "jsonId i = i"

definition jsonRoundTrip :: "entry \<Rightarrow> entry" where
  "jsonRoundTrip od = od\<lparr>oid := jsonId (oid od)\<rparr>"

text \<open>\<^verbatim>\<open>OrdersManager.showConfirmationModal\<close>; the message only goes to the screen.\<close>

definition showConfirmationModal :: "string \<Rightarrow> entry \<Rightarrow> app \<Rightarrow> app" where
  "showConfirmationModal operation orderData a =
     (if modalElements a
        then a\<lparr>dataset := Some (operation, jsonRoundTrip orderData), modalDisplay := True\<rparr>
      else a)"

text \<open>\<^verbatim>\<open>xs[index]\<close>, \<open>None\<close> past the end.\<close>

definition elemAt :: "'a list \<Rightarrow> nat \<Rightarrow> 'a option" where
  "elemAt xs i = (if i < length xs then Some (xs ! i) else None)"

text \<open>The entry a row of the table stands for: only rows of the two active tables have
  one.\<close>

definition rowOrder :: "symbolData \<Rightarrow> string \<Rightarrow> nat \<Rightarrow> entry option" where
  "rowOrder sd ty i =
     (case (if ty = ''orders'' then activeOrders sd else None) of
        Some os \<Rightarrow> elemAt os i
      | None \<Rightarrow>
          (case (if ty = ''positions'' then activePositions sd else None) of
             Some ps \<Rightarrow> elemAt ps i
           | None \<Rightarrow> None))"

text \<open>\<^verbatim>\<open>OrdersManager.closeOrder\<close>.\<close>

definition closeOrder :: "string \<Rightarrow> string \<Rightarrow> nat \<Rightarrow> app \<Rightarrow> app" where
  "closeOrder sy ty i a =
     (case find (\<lambda>sd. symbol_sd sd = sy) (ordersData a) of
        None \<Rightarrow> a
      | Some sd \<Rightarrow>
          (case rowOrder sd ty i of
             None \<Rightarrow> a
           | Some order \<Rightarrow> showConfirmationModal ''close'' order a))"

text \<open>
  \<^verbatim>\<open>OrdersManager.saveOrder\<close>. The row of the table is an argument: absent, or the
  eight controls \<^verbatim>\<open>editOrder\<close> puts into it, each of which the handler looks up on
  its own. A row with none of them has no \<^verbatim>\<open>.edit-input\<close>.
\<close>

record editInputs =
  exchangeSelect :: "string option"
  sideSelect :: "string option"
  typeSelect :: "string option"
  priceInput :: "real option option"
  amountInput :: "real option option"
  leverageInput :: "real option option"
  stopLossInput :: "real option option"
  takeProfitInput :: "real option option"

definition noInputs :: "editInputs \<Rightarrow> bool" where
  "noInputs r \<longleftrightarrow>
     exchangeSelect r = None \<and> sideSelect r = None \<and> typeSelect r = None \<and>
     priceInput r = None \<and> amountInput r = None \<and> leverageInput r = None \<and>
     stopLossInput r = None \<and> takeProfitInput r = None"

definition updatedOrder :: "editInputs \<Rightarrow> entry \<Rightarrow> entry" where
  "updatedOrder r order =
     order\<lparr>exchange := (case exchangeSelect r of None \<Rightarrow> exchange order | Some v \<Rightarrow> v),
           side := (case sideSelect r of None \<Rightarrow> side order | Some v \<Rightarrow> v),
           type := (case typeSelect r of None \<Rightarrow> type order | Some v \<Rightarrow> v),
           price := (case priceInput r of None \<Rightarrow> price order | Some v \<Rightarrow> orDefault v 0),
           amount := (case amountInput r of None \<Rightarrow> amount order | Some v \<Rightarrow> orDefault v 0),
           leverage :=
             (case leverageInput r of None \<Rightarrow> leverage order | Some v \<Rightarrow> orDefault v 1),
           stop_loss :=
             (case stopLossInput r of None \<Rightarrow> stop_loss order | Some v \<Rightarrow> orDefault v 0),
           take_profit :=
             (case takeProfitInput r of None \<Rightarrow> take_profit order | Some v \<Rightarrow> orDefault v 0)\<rparr>"

definition saveOrder :: "string \<Rightarrow> string \<Rightarrow> nat \<Rightarrow> editInputs option \<Rightarrow> app \<Rightarrow> app" where
  "saveOrder sy ty i row a =
     (case find (\<lambda>sd. symbol_sd sd = sy) (ordersData a) of
        None \<Rightarrow> a
      | Some sd \<Rightarrow>
          (case rowOrder sd ty i of
             None \<Rightarrow> a
           | Some order \<Rightarrow>
               (case row of
                  None \<Rightarrow> a
                | Some r \<Rightarrow>
                    if noInputs r then showConfirmationModal ''save'' order a
                    else if exchange (updatedOrder r order) \<notin> set (availableExchanges a) then a
                    else if symbol (updatedOrder r order) \<notin> set (availableSymbols a) then a
                    else showConfirmationModal ''save'' (updatedOrder r order) a)))"

text \<open>
  The click handlers of the modal's buttons (\<^verbatim>\<open>setupConfirmationModal\<close>). Cancel
  only hides the modal. Confirm reads the button's dataset, runs the operation, and
  hides the modal.
\<close>

definition cancelClick :: "app \<Rightarrow> app" where
  "cancelClick a = (if modalElements a then a\<lparr>modalDisplay := False\<rparr> else a)"

definition confirmClick :: "timestamp \<Rightarrow> app \<Rightarrow> app" where
  "confirmClick now a =
     (if modalElements a
        then (case dataset a of
                None \<Rightarrow> a
              | Some (operation, od) \<Rightarrow>
                  if operation = ''save'' then snd (performSaveOperation od a)
                  else if operation = ''close'' then performCloseOperation od now a
                  else a)\<lparr>modalDisplay := False\<rparr>
      else a)"

section \<open>Reference catalog\<close>

record exchangeConfig =
  exchange_cfg :: string
  use_exchange :: bool

record symbolConfig =
  symbol_cfg :: string
  use_symbol :: bool

text \<open>What the promise chain of a \<^verbatim>\<open>fetch\<close> comes to: the parsed array, or a rejection
  (the request failed, or the body was not JSON).\<close>

datatype 'a fetched = Rejection | Json "'a list"

definition fallbackExchanges :: "string list" where
  "fallbackExchanges = [''gate'', ''bitget'', ''bingx'', ''mexc'']"

definition fallbackSymbols :: "string list" where
  "fallbackSymbols = [''BTC/USDT'', ''ETH/USDT'', ''BTC/USDT:USDT'', ''ETH/USDT:USDT'']"

definition loadAvailableExchanges :: "exchangeConfig fetched \<Rightarrow> app \<Rightarrow> app" where
  "loadAvailableExchanges r a =
     (case r of
        Json data \<Rightarrow> a\<lparr>availableExchanges := map exchange_cfg (filter use_exchange data)\<rparr>
      | Rejection \<Rightarrow> a\<lparr>availableExchanges := fallbackExchanges\<rparr>)"

definition loadAvailableSymbols :: "symbolConfig fetched \<Rightarrow> app \<Rightarrow> app" where
  "loadAvailableSymbols r a =
     (case r of
        Json data \<Rightarrow> a\<lparr>availableSymbols := map symbol_cfg (filter use_symbol data)\<rparr>
      | Rejection \<Rightarrow> a\<lparr>availableSymbols := fallbackSymbols\<rparr>)"

section \<open>OrdersManager.loadOrdersGroup: the filter of the table\<close>

text \<open>
  The value of a date input, \<^verbatim>\<open>"YYYY-MM-DD"\<close>, is the number of days since the epoch
  that it names. \<^verbatim>\<open>new Date("YYYY-MM-DD")\<close> is the instant of 00:00 UTC on that day.
  \<^verbatim>\<open>new Date("YYYY-MM-DD HH:MM:SS")\<close> is outside the formats the language fixes; the
  browsers read it as local time, so the instant depends on the offset of the local
  zone from UTC, in seconds, which is the argument \<open>tz\<close>. Instants are in seconds.
\<close>

type_synonym day = int

definition dateOnlyInstant :: "day \<Rightarrow> int" where
  "dateOnlyInstant d = d * 86400"

definition dateTimeInstant :: "int \<Rightarrow> timestamp \<Rightarrow> int" where
  "dateTimeInstant tz t = t - tz"

text \<open>The calendar day a timestamp names, and its time of day in seconds.\<close>

definition dayOf :: "timestamp \<Rightarrow> day" where
  "dayOf t = t div 86400"

definition timeOfDay :: "timestamp \<Rightarrow> int" where
  "timeOfDay t = t mod 86400"

text \<open>
  Whether the loop body of lines 242 to 258 reaches \<^verbatim>\<open>createOrderRow\<close> for an item. An
  empty filter value is falsy, and so is an absent \<^verbatim>\<open>item.date\<close>.
\<close>

definition shown :: "int \<Rightarrow> string \<Rightarrow> day option \<Rightarrow> day option \<Rightarrow> entry \<Rightarrow> bool" where
  "shown tz exchangeFilter dateFrom dateTo item =
     (if exchangeFilter \<noteq> [] \<and> exchange item \<noteq> exchangeFilter then False
      else if (case (dateFrom, date item) of
                 (Some f, Some d) \<Rightarrow> dateTimeInstant tz d < dateOnlyInstant f
               | _ \<Rightarrow> False) then False
      else if (case (dateTo, date item) of
                 (Some t, Some d) \<Rightarrow> dateTimeInstant tz d > dateOnlyInstant t
               | _ \<Rightarrow> False) then False
      else True)"

text \<open>The rows the table body gets, each with the index of its item in the collection;
  none when the document has no table body for the symbol and type.\<close>

definition loadOrdersGroup ::
  "bool \<Rightarrow> int \<Rightarrow> entry list \<Rightarrow> day option \<Rightarrow> day option \<Rightarrow> string \<Rightarrow> (nat \<times> entry) list" where
  "loadOrdersGroup tbody tz items dateFrom dateTo exchangeFilter =
     (if tbody
        then filter (\<lambda>(index, item). shown tz exchangeFilter dateFrom dateTo item)
               (enumerate 0 items)
      else [])"

section \<open>OrdersManager.loadOrdersData\<close>



section \<open>The handlers as events\<close>


















section \<open>Notions of the specification\<close>

text \<open>The active collection the type of a payload names: \<^verbatim>\<open>positions\<close> for
  \<^verbatim>\<open>market\<close>, \<^verbatim>\<open>orders\<close> for \<^verbatim>\<open>limit\<close>, none for any other type.\<close>

definition impliedActive :: "entry \<Rightarrow> symbolData \<Rightarrow> entry list" where
  "impliedActive od sd =
     (if type od = ''market'' then positionsOf sd
      else if type od = ''limit'' then ordersOf sd
      else [])"

section \<open>Concrete states\<close>

text \<open>
  The state the constructors leave (\<^verbatim>\<open>this.ordersData = []\<close>), with the catalog the
  fallback lists give and the confirmation modal in the document.
\<close>

definition initialApp :: app where
  "initialApp =
     \<lparr>ordersData = [],
      availableExchanges = [''gate'', ''bitget'', ''bingx'', ''mexc''],
      availableSymbols = [''BTC/USDT'', ''ETH/USDT'', ''BTC/USDT:USDT'', ''ETH/USDT:USDT''],
      modalElements = True,
      modalDisplay = False,
      dataset = None,
      posted = []\<rparr>"

definition btcLimitForm :: newOrderForm where
  "btcLimitForm =
     \<lparr>newOrderSymbol = ''BTC/USDT'',
      newOrderExchange = ''gate'',
      newOrderSide = ''long'',
      newOrderType = ''limit'',
      newOrderOpenType = [],
      newOrderLeverage = Some 1,
      newOrderPrice = Some 50000,
      newOrderAmount = Some (1 / 10),
      newOrderStopLoss = None,
      newOrderTakeProfit = None,
      newOrderFee = Some (1 / 1000),
      newOrderAmountUsdt = None\<rparr>"

text \<open>A well-formed entry on the exchange \<^verbatim>\<open>gate\<close>, by identifier, symbol and type.\<close>

definition gateEntry :: "jsid \<Rightarrow> string \<Rightarrow> string \<Rightarrow> entry" where
  "gateEntry i sy ty =
     \<lparr>oid = i, symbol = sy, exchange = ''gate'', side = ''long'', type = ty,
      open_type = ''isolated'', leverage = 1, price = 50000, amount = 1 / 10,
      stop_loss = 0, take_profit = 0, fee = 1 / 1000, amount_usdt = 0, pls = 0,
      pls_percentage = 0, price_liquidation = 0, take_profit_pls = 0, stop_loss_pls = 0,
      date = Some 1700000000, close_date = None\<rparr>"

text \<open>A ledger with one Symbol Ledger holding one position, identifier 1.\<close>

definition onePositionApp :: app where
  "onePositionApp = initialApp\<lparr>ordersData :=
     [\<lparr>symbol_sd = ''BTC/USDT'',
       active = Some \<lparr>orders = Some [],
                      positions = Some [gateEntry (Number (Fin 1)) ''BTC/USDT'' ''market'']\<rparr>,
       closed = Some []\<rparr>]\<rparr>"

text \<open>Two positions without identifier (\<^verbatim>\<open>null\<close>, which is also what an identifier
  \<^verbatim>\<open>-Infinity\<close> becomes once the ledger has been sent to the server and loaded again).\<close>

definition twoPositionsApp :: app where
  "twoPositionsApp = initialApp\<lparr>ordersData :=
     [\<lparr>symbol_sd = ''BTC/USDT'',
       active = Some \<lparr>orders = Some [],
                      positions = Some [gateEntry Null ''BTC/USDT'' ''market'',
                                        (gateEntry Null ''BTC/USDT'' ''market'')\<lparr>price := 60000\<rparr>]\<rparr>,
       closed = Some []\<rparr>]\<rparr>"

text \<open>The shape \<^verbatim>\<open>performSaveOperation\<close> itself gives a Symbol Ledger it creates for a
  limit order: \<^verbatim>\<open>{symbol, active: {orders: [order]}}\<close>.\<close>

definition ordersOnlyApp :: app where
  "ordersOnlyApp = initialApp\<lparr>ordersData :=
     [\<lparr>symbol_sd = ''BTC/USDT'',
       active = Some \<lparr>orders = Some [gateEntry (Number (Fin 1)) ''BTC/USDT'' ''limit''],
                      positions = None\<rparr>,
       closed = None\<rparr>]\<rparr>"

text \<open>The row of the table in edit mode, the type switched to \<^verbatim>\<open>market\<close>.\<close>

definition toMarketRow :: editInputs where
  "toMarketRow =
     \<lparr>exchangeSelect = Some ''gate'', sideSelect = Some ''long'', typeSelect = Some ''market'',
      priceInput = Some (Some 50000), amountInput = Some (Some (1 / 10)),
      leverageInput = Some (Some 1), stopLossInput = Some None, takeProfitInput = Some None\<rparr>"

text \<open>A ledger with one Symbol Ledger, for another symbol, holding order 3.\<close>

definition ethOrderApp :: app where
  "ethOrderApp = initialApp\<lparr>ordersData :=
     [\<lparr>symbol_sd = ''ETH/USDT'',
       active = Some \<lparr>orders = Some [gateEntry (Number (Fin 3)) ''ETH/USDT'' ''limit''],
                      positions = Some []\<rparr>,
       closed = Some []\<rparr>]\<rparr>"

text \<open>A state whose catalog was loaded from the server.\<close>

definition binanceApp :: app where
  "binanceApp = initialApp\<lparr>availableExchanges := [''binance'', ''okx''],
                           availableSymbols := [''SOL/USDT'']\<rparr>"

text \<open>An entry on an exchange the catalog does not list.\<close>

definition krakenEntry :: entry where
  "krakenEntry = (gateEntry (Number (Fin 1)) ''BTC/USDT'' ''market'')\<lparr>exchange := ''kraken''\<rparr>"

definition krakenRow :: editInputs where
  "krakenRow = toMarketRow\<lparr>exchangeSelect := Some ''kraken''\<rparr>"




section \<open>Identifier assignment\<close>

lemma maxId_Nil: "maxId [] = NegInfinity"
  by (simp add: maxId_def)

text \<open>
  C1. The identifier of a new entry is meant to be one more than the largest identifier
  of the ledger, and 1 in an empty ledger. In the empty ledger \<^verbatim>\<open>Math.max()\<close> has no
  argument and returns \<^verbatim>\<open>-Infinity\<close>, and \<^verbatim>\<open>-Infinity + 1\<close> is \<^verbatim>\<open>-Infinity\<close>: the
  first entry gets that identifier, not 1, and the second insert, which finds only
  \<^verbatim>\<open>-Infinity\<close> in the ledger, gets it again.
\<close>

theorem saveNewOrder_empty_ledger_id:
  "fst (saveNewOrder (Some btcLimitForm) 1700000000 initialApp) = Saved
   \<and> map oid (allEntries (ordersData (snd (saveNewOrder (Some btcLimitForm) 1700000000 initialApp))))
       = [Number NegInfinity]
   \<and> map oid (allEntries (ordersData (snd (saveNewOrder (Some btcLimitForm) 1700000060
         (snd (saveNewOrder (Some btcLimitForm) 1700000000 initialApp))))))
       = [Number NegInfinity, Number NegInfinity]"
  by (simp add: saveNewOrder_def formOrder_def validateNewOrder_def initialApp_def
      btcLimitForm_def maxId_def insertOrder_def newSymbolEntry_def addToActive_def
      allEntries_def entriesOf_def ordersOf_def positionsOf_def closedOf_def
      activeOrders_def activePositions_def Let_def)

section \<open>Closing an entry\<close>

lemmas concrete_defs = gateEntry_def onePositionApp_def initialApp_def

lemmas close_defs = performCloseOperation_def closeInSymbol_def removeFromActive_def
  setPositions_def setOrders_def activePositions_def activeOrders_def closedOf_def
  positionsOf_def ordersOf_def Let_def

lemma filter_absent: "x \<notin> f ` set xs \<Longrightarrow> filter (\<lambda>p. f p \<noteq> x) xs = xs"
  by (induction xs) auto

lemma setPositions_same: "activePositions sd = Some ps \<Longrightarrow> setPositions ps sd = sd"
  by (auto simp: activePositions_def setPositions_def split: option.splits)

lemma setOrders_same: "activeOrders sd = Some os \<Longrightarrow> setOrders os sd = sd"
  by (auto simp: activeOrders_def setOrders_def split: option.splits)

lemma removeFromActive_absent:
  "oid od \<notin> oid ` set (impliedActive od sd) \<Longrightarrow> removeFromActive od sd = sd"
  by (auto simp: removeFromActive_def impliedActive_def positionsOf_def ordersOf_def
      filter_absent setPositions_same setOrders_same split: option.splits if_splits)

lemma closeLoop_no_symbol:
  "\<forall>s\<in>set data. symbol_sd s \<noteq> symbol od \<Longrightarrow> closeLoop od now data = data"
  by (induction data) auto

lemma closeLoop_first:
  "\<forall>s\<in>set pre. symbol_sd s \<noteq> symbol od \<Longrightarrow> symbol_sd sd = symbol od \<Longrightarrow>
   closeLoop od now (pre @ sd # post) = pre @ closeInSymbol od now sd # post"
  by (induction pre) auto

lemma ordersData_performCloseOperation:
  "ordersData (performCloseOperation od now a) = closeLoop od now (ordersData a)"
  by (simp add: performCloseOperation_def Let_def)

text \<open>
  C2, as the claim has it, fails: a payload whose identifier is in no active collection
  is still stamped and pushed to \<^verbatim>\<open>closed\<close> when its symbol has a Symbol Ledger. Here
  the ledger holds position 1 and the payload has identifier 2.
\<close>

theorem performCloseOperation_missing_id_counterexample:
  "oid (gateEntry (Number (Fin 2)) ''BTC/USDT'' ''market'')
     \<notin> oid ` set (impliedActive (gateEntry (Number (Fin 2)) ''BTC/USDT'' ''market'')
                       (hd (ordersData onePositionApp)))
   \<and> ordersData (performCloseOperation (gateEntry (Number (Fin 2)) ''BTC/USDT'' ''market'')
         1700000300 onePositionApp) \<noteq> ordersData onePositionApp
   \<and> map closed (ordersData (performCloseOperation
         (gateEntry (Number (Fin 2)) ''BTC/USDT'' ''market'') 1700000300 onePositionApp))
       = [Some [(gateEntry (Number (Fin 2)) ''BTC/USDT'' ''market'')\<lparr>close_date := Some 1700000300\<rparr>]]"
  by (simp add: concrete_defs close_defs impliedActive_def)

text \<open>
  C2, amended. When no Symbol Ledger has the payload's symbol, confirming the close
  leaves the ledger as it was. When one has, and the payload's identifier is not in the
  active collection its type names, the first such Symbol Ledger keeps its active
  collections and gets the payload, stamped with the clock, at the end of its
  \<^verbatim>\<open>closed\<close>; no other Symbol Ledger changes.
\<close>

theorem performCloseOperation_missing_id:
  "((\<forall>s\<in>set (ordersData a). symbol_sd s \<noteq> symbol od) \<longrightarrow>
      ordersData (performCloseOperation od now a) = ordersData a)
   \<and> (ordersData a = pre @ sd # post \<and> (\<forall>s\<in>set pre. symbol_sd s \<noteq> symbol od)
        \<and> symbol_sd sd = symbol od \<and> oid od \<notin> oid ` set (impliedActive od sd) \<longrightarrow>
      ordersData (performCloseOperation od now a)
        = pre @ sd\<lparr>closed := Some (closedOf sd @ [od\<lparr>close_date := Some now\<rparr>])\<rparr> # post)"
  by (simp add: ordersData_performCloseOperation closeLoop_no_symbol closeLoop_first
      closeInSymbol_def removeFromActive_absent)

theorem performCloseOperation_missing_id_witness:
  "ordersData (performCloseOperation (gateEntry (Number (Fin 2)) ''BTC/USDT'' ''market'')
      1700000300 onePositionApp)
   = [] @ (hd (ordersData onePositionApp))\<lparr>closed := Some (closedOf (hd (ordersData onePositionApp))
        @ [(gateEntry (Number (Fin 2)) ''BTC/USDT'' ''market'')\<lparr>close_date := Some 1700000300\<rparr>])\<rparr> # []
   \<and> ordersData (performCloseOperation (gateEntry (Number (Fin 2)) ''ETH/USDT'' ''market'')
      1700000300 onePositionApp) = ordersData onePositionApp"
  using performCloseOperation_missing_id [of onePositionApp
      "gateEntry (Number (Fin 2)) ''BTC/USDT'' ''market''" 1700000300 "[]"
      "hd (ordersData onePositionApp)" "[]"]
    performCloseOperation_missing_id [of onePositionApp
      "gateEntry (Number (Fin 2)) ''ETH/USDT'' ''market''" 1700000300 "[]"
      "hd (ordersData onePositionApp)" "[]"]
  by (simp add: concrete_defs impliedActive_def positionsOf_def activePositions_def)

lemma filter_unique:
  "f e = x \<Longrightarrow> x \<notin> f ` set (xs @ ys) \<Longrightarrow> filter (\<lambda>p. f p \<noteq> x) (xs @ e # ys) = xs @ ys"
  by (simp add: filter_absent image_Un)

lemma positionsOf_setPositions:
  "activePositions sd = Some ps \<Longrightarrow> positionsOf (setPositions zs sd) = zs"
  by (auto simp: positionsOf_def activePositions_def setPositions_def split: option.splits)

lemma ordersOf_setPositions: "ordersOf (setPositions zs sd) = ordersOf sd"
  by (auto simp: ordersOf_def activeOrders_def setPositions_def split: option.splits)

lemma ordersOf_setOrders:
  "activeOrders sd = Some os \<Longrightarrow> ordersOf (setOrders zs sd) = zs"
  by (auto simp: ordersOf_def activeOrders_def setOrders_def split: option.splits)

lemma positionsOf_setOrders: "positionsOf (setOrders zs sd) = positionsOf sd"
  by (auto simp: positionsOf_def activePositions_def setOrders_def split: option.splits)

lemma closed_setPositions: "closed (setPositions zs sd) = closed sd"
  by (simp add: setPositions_def)

lemma closed_setOrders: "closed (setOrders zs sd) = closed sd"
  by (simp add: setOrders_def)

lemma symbol_setPositions: "symbol_sd (setPositions zs sd) = symbol_sd sd"
  by (simp add: setPositions_def)

lemma symbol_setOrders: "symbol_sd (setOrders zs sd) = symbol_sd sd"
  by (simp add: setOrders_def)

lemma symbol_removeFromActive: "symbol_sd (removeFromActive od sd) = symbol_sd sd"
  by (simp add: removeFromActive_def symbol_setPositions symbol_setOrders split: option.splits)

lemma closed_removeFromActive: "closed (removeFromActive od sd) = closed sd"
  by (simp add: removeFromActive_def closed_setPositions closed_setOrders split: option.splits)

lemma ordersOf_closed_update: "ordersOf (sd\<lparr>closed := c\<rparr>) = ordersOf sd"
  by (simp add: ordersOf_def activeOrders_def)

lemma positionsOf_closed_update: "positionsOf (sd\<lparr>closed := c\<rparr>) = positionsOf sd"
  by (simp add: positionsOf_def activePositions_def)

lemma impliedActive_nonempty:
  assumes "impliedActive od sd = xs @ e # ys"
  shows "(type od = ''market'' \<and> activePositions sd = Some (xs @ e # ys))
       \<or> (type od = ''limit'' \<and> type od \<noteq> ''market'' \<and> activeOrders sd = Some (xs @ e # ys))"
proof -
  have ne: "impliedActive od sd \<noteq> []" using assms by simp
  show ?thesis
  proof (cases "type od = ''market''")
    case True
    with assms have "positionsOf sd = xs @ e # ys" by (simp add: impliedActive_def)
    then have "activePositions sd = Some (xs @ e # ys)"
      by (cases "activePositions sd") (simp_all add: positionsOf_def)
    with True show ?thesis by simp
  next
    case False
    with ne have lim: "type od = ''limit''" by (auto simp: impliedActive_def split: if_splits)
    with False assms have "ordersOf sd = xs @ e # ys" by (simp add: impliedActive_def)
    then have "activeOrders sd = Some (xs @ e # ys)"
      by (cases "activeOrders sd") (simp_all add: ordersOf_def)
    with False lim show ?thesis by simp
  qed
qed

lemma removeFromActive_unique:
  assumes "impliedActive od sd = xs @ e # ys" and "oid e = oid od"
    and "oid od \<notin> oid ` set (xs @ ys)"
  shows "positionsOf (removeFromActive od sd)
           = (if type od = ''market'' then xs @ ys else positionsOf sd)"
    and "ordersOf (removeFromActive od sd)
           = (if type od = ''market'' then ordersOf sd else xs @ ys)"
  using impliedActive_nonempty [OF assms(1)] filter_unique [OF assms(2,3)]
  by (auto simp: removeFromActive_def positionsOf_setPositions ordersOf_setPositions
      ordersOf_setOrders positionsOf_setOrders)

text \<open>
  C4, amended. Let the first Symbol Ledger with the payload's symbol hold, in the active
  collection the payload's type names, exactly one entry with the payload's identifier.
  Then confirming the close removes that entry from that collection and leaves the
  other active collection alone, appends the payload, stamped with the reading of the
  clock, to \<^verbatim>\<open>closed\<close>, and the Symbol Ledger has as many entries as before. The stamp
  is the reading of the clock and the creation timestamp stays the payload's: the
  stamp is not earlier than a creation timestamp exactly when the clock is not.
\<close>

theorem performCloseOperation_existing:
  assumes "ordersData a = pre @ sd # post"
    and "\<forall>s\<in>set pre. symbol_sd s \<noteq> symbol od"
    and "symbol_sd sd = symbol od"
    and "impliedActive od sd = xs @ e # ys"
    and "oid e = oid od"
    and "oid od \<notin> oid ` set (xs @ ys)"
  shows "\<exists>sd'. ordersData (performCloseOperation od now a) = pre @ sd' # post
           \<and> symbol_sd sd' = symbol_sd sd
           \<and> impliedActive od sd' = xs @ ys
           \<and> (if type od = ''market'' then ordersOf sd' = ordersOf sd
               else positionsOf sd' = positionsOf sd)
           \<and> closedOf sd' = closedOf sd @ [od\<lparr>close_date := Some now\<rparr>]
           \<and> date (last (closedOf sd')) = date od
           \<and> close_date (last (closedOf sd')) = Some now
           \<and> (\<forall>d. date od = Some d \<longrightarrow>
                 ((\<exists>t. close_date (last (closedOf sd')) = Some t \<and> d \<le> t) \<longleftrightarrow> d \<le> now))
           \<and> length (entriesOf sd') = length (entriesOf sd)"
proof -
  let ?sd' = "closeInSymbol od now sd"
  have kind: "type od = ''market'' \<or> (type od = ''limit'' \<and> type od \<noteq> ''market'')"
    using impliedActive_nonempty [OF assms(4)] by blast
  have data: "ordersData (performCloseOperation od now a) = pre @ ?sd' # post"
    using assms(1-3) by (simp add: ordersData_performCloseOperation closeLoop_first)
  have pos: "positionsOf ?sd' = (if type od = ''market'' then xs @ ys else positionsOf sd)"
    using removeFromActive_unique(1) [OF assms(4-6)]
    by (simp add: closeInSymbol_def positionsOf_closed_update)
  have ord: "ordersOf ?sd' = (if type od = ''market'' then ordersOf sd else xs @ ys)"
    using removeFromActive_unique(2) [OF assms(4-6)]
    by (simp add: closeInSymbol_def ordersOf_closed_update)
  have clo: "closedOf ?sd' = closedOf sd @ [od\<lparr>close_date := Some now\<rparr>]"
    by (simp add: closeInSymbol_def closedOf_def)
  have sym: "symbol_sd ?sd' = symbol_sd sd"
    by (simp add: closeInSymbol_def symbol_removeFromActive)
  have imp: "impliedActive od ?sd' = xs @ ys"
    using kind pos ord by (auto simp: impliedActive_def)
  have len: "length (entriesOf ?sd') = length (entriesOf sd)"
    using kind assms(4) pos ord clo by (auto simp: entriesOf_def impliedActive_def)
  have created: "date (last (closedOf ?sd')) = date od"
    using clo by simp
  have stamp: "close_date (last (closedOf ?sd')) = Some now"
    using clo by simp
  have order: "\<forall>d. date od = Some d \<longrightarrow>
                 ((\<exists>t. close_date (last (closedOf ?sd')) = Some t \<and> d \<le> t) \<longleftrightarrow> d \<le> now)"
    using stamp by simp
  have other: "if type od = ''market'' then ordersOf ?sd' = ordersOf sd
               else positionsOf ?sd' = positionsOf sd"
    using pos ord by simp
  from data sym imp other clo created stamp order len show ?thesis by blast
qed

text \<open>
  C4, as the claim has it, fails. The filter removes every entry that carries the
  identifier: with two positions without identifier, closing one removes both, and the
  Symbol Ledger goes from two entries to one. And the stamp is whatever the clock
  reads: position 1, created at 1700000000, closed when the clock reads 1699999000,
  gets a close timestamp earlier than its creation timestamp.
\<close>

theorem performCloseOperation_existing_counterexample:
  "gateEntry Null ''BTC/USDT'' ''market''
     \<in> set (impliedActive (gateEntry Null ''BTC/USDT'' ''market'') (hd (ordersData twoPositionsApp)))
   \<and> map (\<lambda>sd. length (entriesOf sd)) (ordersData twoPositionsApp) = [2]
   \<and> map (\<lambda>sd. length (entriesOf sd)) (ordersData (performCloseOperation
        (gateEntry Null ''BTC/USDT'' ''market'') 1700000300 twoPositionsApp)) = [1]
   \<and> map positionsOf (ordersData (performCloseOperation
        (gateEntry Null ''BTC/USDT'' ''market'') 1700000300 twoPositionsApp)) = [ [] ]
   \<and> map (\<lambda>sd. map (\<lambda>c. (date c, close_date c)) (closedOf sd))
        (ordersData (performCloseOperation (gateEntry (Number (Fin 1)) ''BTC/USDT'' ''market'')
           1699999000 onePositionApp))
       = [ [(Some 1700000000, Some 1699999000)] ]"
  by (simp add: concrete_defs twoPositionsApp_def close_defs impliedActive_def entriesOf_def)

theorem performCloseOperation_existing_witness:
  "\<exists>sd'. ordersData (performCloseOperation (gateEntry (Number (Fin 1)) ''BTC/USDT'' ''market'')
             1700000300 onePositionApp) = [] @ sd' # []
     \<and> positionsOf sd' = [] \<and> length (entriesOf sd') = 1
     \<and> closedOf sd' = [(gateEntry (Number (Fin 1)) ''BTC/USDT'' ''market'')\<lparr>close_date := Some 1700000300\<rparr>]
     \<and> date (last (closedOf sd')) = Some 1700000000
     \<and> (\<exists>t. close_date (last (closedOf sd')) = Some t \<and> 1700000000 \<le> t)"
proof -
  let ?e = "gateEntry (Number (Fin 1)) ''BTC/USDT'' ''market''"
  let ?sd = "hd (ordersData onePositionApp)"
  have 1: "ordersData onePositionApp = [] @ ?sd # []" by (simp add: concrete_defs)
  have 2: "\<forall>s\<in>set []. symbol_sd s \<noteq> symbol ?e" by simp
  have 3: "symbol_sd ?sd = symbol ?e" by (simp add: concrete_defs)
  have 4: "impliedActive ?e ?sd = [] @ ?e # []"
    by (simp add: concrete_defs impliedActive_def positionsOf_def activePositions_def)
  have 5: "oid ?e = oid ?e" by simp
  have 6: "oid ?e \<notin> oid ` set ([] @ [])" by simp
  have 7: "date ?e = Some 1700000000" by (simp add: gateEntry_def)
  have 8: "(1700000000::int) \<le> 1700000300" by simp
  have ty: "type ?e = ''market''" by (simp add: gateEntry_def)
  have en: "length (entriesOf ?sd) = 1"
    by (simp add: concrete_defs entriesOf_def positionsOf_def ordersOf_def closedOf_def
        activePositions_def activeOrders_def)
  have cl: "closedOf ?sd = []" by (simp add: concrete_defs closedOf_def)
  from performCloseOperation_existing [OF 1 2 3 4 5 6, of 1700000300]
  obtain sd' where sd': "ordersData (performCloseOperation ?e 1700000300 onePositionApp)
        = [] @ sd' # []"
    "impliedActive ?e sd' = [] @ []"
    "closedOf sd' = closedOf ?sd @ [?e\<lparr>close_date := Some 1700000300\<rparr>]"
    "date (last (closedOf sd')) = date ?e"
    "\<forall>d. date ?e = Some d \<longrightarrow>
       ((\<exists>t. close_date (last (closedOf sd')) = Some t \<and> d \<le> t) \<longleftrightarrow> d \<le> 1700000300)"
    "length (entriesOf sd') = length (entriesOf ?sd)"
    by blast
  from sd'(5) 7 8 have "\<exists>t. close_date (last (closedOf sd')) = Some t \<and> 1700000000 \<le> t"
    by blast
  with sd' ty en cl 7 show ?thesis by (auto simp: impliedActive_def)
qed

lemmas save_defs = performSaveOperation_def saveData_def saveInSymbol_def newSymbolData_def
  upsert_def setPositions_def setOrders_def activePositions_def activeOrders_def Let_def

section \<open>One Symbol Ledger for each symbol\<close>

text \<open>
  C3. Every mutation is meant to keep the symbols of the ledger distinct, a Symbol
  Ledger being created only when none has the symbol. \<^verbatim>\<open>performSaveOperation\<close>
  creates one whenever \<^verbatim>\<open>orderUpdated\<close> stayed false, under the comment "If symbol
  doesn't exist in ordersData, create it"; but the flag also stays false when the
  symbol exists and its Symbol Ledger lacks the collection the payload's type names.
  Here the ledger is what \<^verbatim>\<open>performSaveOperation\<close> itself creates for a limit order;
  saving that order as a market order adds a second Symbol Ledger for the symbol, and
  so does the same change made through the table (\<^verbatim>\<open>saveOrder\<close>, then confirm).
\<close>

theorem performSaveOperation_duplicates_symbol:
  "ordersData ordersOnlyApp = [newSymbolData (gateEntry (Number (Fin 1)) ''BTC/USDT'' ''limit'')]
   \<and> distinct (map symbol_sd (ordersData ordersOnlyApp))
   \<and> map symbol_sd (ordersData (snd (performSaveOperation
        (gateEntry (Number (Fin 1)) ''BTC/USDT'' ''market'') ordersOnlyApp)))
       = [''BTC/USDT'', ''BTC/USDT'']
   \<and> map symbol_sd (ordersData (confirmClick 1700000300
        (saveOrder ''BTC/USDT'' ''orders'' 0 (Some toMarketRow) ordersOnlyApp)))
       = [''BTC/USDT'', ''BTC/USDT'']"
  by (simp add: ordersOnlyApp_def concrete_defs save_defs confirmClick_def saveOrder_def
      rowOrder_def elemAt_def noInputs_def toMarketRow_def updatedOrder_def
      showConfirmationModal_def jsonRoundTrip_def)

section \<open>Refreshing the reference catalog\<close>

text \<open>
  C7, as the claim has it, fails: after a failed fetch the previous list, loaded and
  not empty, is gone.
\<close>

theorem catalog_failure_counterexample:
  "availableExchanges binanceApp \<noteq> []
   \<and> availableExchanges (loadAvailableExchanges Rejection binanceApp)
       \<noteq> availableExchanges binanceApp
   \<and> availableSymbols binanceApp \<noteq> []
   \<and> availableSymbols (loadAvailableSymbols Rejection binanceApp)
       \<noteq> availableSymbols binanceApp"
  by (simp add: binanceApp_def initialApp_def loadAvailableExchanges_def
      loadAvailableSymbols_def fallbackExchanges_def fallbackSymbols_def)

text \<open>
  C7, amended. When the fetch fails, \<^verbatim>\<open>loadAvailableExchanges\<close> and
  \<^verbatim>\<open>loadAvailableSymbols\<close> install the hardcoded lists, whatever list was there
  before; when it succeeds they install the names of the enabled records.
\<close>

theorem catalog_failure_installs_fallback:
  "availableExchanges (loadAvailableExchanges Rejection a) = [''gate'', ''bitget'', ''bingx'', ''mexc'']
   \<and> availableSymbols (loadAvailableSymbols Rejection a)
       = [''BTC/USDT'', ''ETH/USDT'', ''BTC/USDT:USDT'', ''ETH/USDT:USDT'']
   \<and> availableExchanges (loadAvailableExchanges (Json xs) a)
       = map exchange_cfg (filter use_exchange xs)
   \<and> availableSymbols (loadAvailableSymbols (Json ys) a)
       = map symbol_cfg (filter use_symbol ys)"
  by (simp add: loadAvailableExchanges_def loadAvailableSymbols_def fallbackExchanges_def
      fallbackSymbols_def)

section \<open>Staging and cancelling\<close>

text \<open>
  C9, as the claim has it, fails: cancel does not discard the pending operation. After
  a close has been staged for position 1 and cancelled, the confirm button still
  carries the operation and its payload, and its click handler, run then, closes the
  position and sends the ledger.
\<close>

theorem stage_cancel_counterexample:
  "dataset onePositionApp = None
   \<and> dataset (cancelClick (closeOrder ''BTC/USDT'' ''positions'' 0 onePositionApp))
       = Some (''close'', gateEntry (Number (Fin 1)) ''BTC/USDT'' ''market'')
   \<and> ordersData (confirmClick 1700000300
         (cancelClick (closeOrder ''BTC/USDT'' ''positions'' 0 onePositionApp)))
       \<noteq> ordersData onePositionApp
   \<and> length (posted (confirmClick 1700000300
         (cancelClick (closeOrder ''BTC/USDT'' ''positions'' 0 onePositionApp)))) = 1"
  by (simp add: concrete_defs close_defs closeOrder_def rowOrder_def elemAt_def
      showConfirmationModal_def jsonRoundTrip_def confirmClick_def cancelClick_def)

text \<open>
  C9, amended. Staging an operation (\<^verbatim>\<open>showConfirmationModal\<close>, and the two handlers
  that call it, \<^verbatim>\<open>closeOrder\<close> and \<^verbatim>\<open>saveOrder\<close>) changes no collection of the ledger
  and makes no request. Cancelling changes neither: after stage and cancel the ledger
  is the one before staging and no request has been made. Cancel only hides the modal:
  it leaves the staged operation on the confirm button as staging wrote it, where the
  next staging overwrites it.
\<close>

theorem stage_cancel_frame:
  "ordersData (showConfirmationModal operation od a) = ordersData a
   \<and> posted (showConfirmationModal operation od a) = posted a
   \<and> ordersData (closeOrder sy ty i a) = ordersData a
   \<and> posted (closeOrder sy ty i a) = posted a
   \<and> ordersData (saveOrder sy ty i row a) = ordersData a
   \<and> posted (saveOrder sy ty i row a) = posted a
   \<and> ordersData (cancelClick (showConfirmationModal operation od a)) = ordersData a
   \<and> posted (cancelClick (showConfirmationModal operation od a)) = posted a
   \<and> ordersData (cancelClick (closeOrder sy ty i a)) = ordersData a
   \<and> posted (cancelClick (closeOrder sy ty i a)) = posted a
   \<and> ordersData (cancelClick (saveOrder sy ty i row a)) = ordersData a
   \<and> posted (cancelClick (saveOrder sy ty i row a)) = posted a
   \<and> modalDisplay (cancelClick (showConfirmationModal operation od a))
       = (\<not> modalElements a \<and> modalDisplay a)
   \<and> dataset (cancelClick a) = dataset a
   \<and> dataset (showConfirmationModal operation od a)
       = (if modalElements a then Some (operation, jsonRoundTrip od) else dataset a)
   \<and> dataset (cancelClick (showConfirmationModal operation od a))
       = (if modalElements a then Some (operation, jsonRoundTrip od) else dataset a)
   \<and> dataset (showConfirmationModal operation' od' (cancelClick (showConfirmationModal operation od a)))
       = (if modalElements a then Some (operation', jsonRoundTrip od') else dataset a)"
  by (simp add: showConfirmationModal_def closeOrder_def saveOrder_def cancelClick_def
      split: option.splits)

section \<open>Saving a payload\<close>

lemma findIndex_None: "(findIndex P xs = None) = (\<forall>x\<in>set xs. \<not> P x)"
  by (induction xs) (auto split: option.splits)

lemma upsert_absent: "oid od \<notin> oid ` set xs \<Longrightarrow> upsert od xs = xs @ [od]"
proof -
  assume "oid od \<notin> oid ` set xs"
  then have "findIndex (\<lambda>p. oid p = oid od) xs = None"
    unfolding findIndex_None by (metis imageI)
  then show ?thesis by (simp add: upsert_def)
qed

lemma saveLoop_no_symbol:
  "\<forall>s\<in>set data. symbol_sd s \<noteq> symbol od \<Longrightarrow> saveLoop od data = (False, data)"
  by (induction data) auto

lemma saveLoop_first:
  "\<forall>s\<in>set pre. symbol_sd s \<noteq> symbol od \<Longrightarrow> symbol_sd sd = symbol od \<Longrightarrow>
   saveLoop od (pre @ sd # post)
     = (fst (saveInSymbol od sd), pre @ snd (saveInSymbol od sd) # post)"
  by (induction pre) auto

lemma ordersData_performSaveOperation:
  "symbol od \<noteq> [] \<Longrightarrow> exchange od \<noteq> [] \<Longrightarrow> side od \<noteq> [] \<Longrightarrow> type od \<noteq> [] \<Longrightarrow>
   performSaveOperation od a
     = (Saved, a\<lparr>ordersData := saveData od (ordersData a),
                 posted := posted a @ [saveData od (ordersData a)]\<rparr>)"
  by (simp add: performSaveOperation_def Let_def)

lemma saveInSymbol_absent:
  assumes "type od = ''market'' \<and> activePositions sd = Some ps
         \<or> type od = ''limit'' \<and> activeOrders sd = Some ps"
    and "oid od \<notin> oid ` set ps"
  shows "fst (saveInSymbol od sd)"
    and "impliedActive od (snd (saveInSymbol od sd)) = ps @ [od]"
    and "if type od = ''market'' then ordersOf (snd (saveInSymbol od sd)) = ordersOf sd
         else positionsOf (snd (saveInSymbol od sd)) = positionsOf sd"
    and "closed (snd (saveInSymbol od sd)) = closed sd"
    and "symbol_sd (snd (saveInSymbol od sd)) = symbol_sd sd"
  using assms
  by (auto simp: saveInSymbol_def impliedActive_def upsert_absent positionsOf_setPositions
      ordersOf_setPositions ordersOf_setOrders positionsOf_setOrders closed_setPositions
      closed_setOrders symbol_setPositions symbol_setOrders)

text \<open>
  C6, amended. A confirmed save of a payload with a symbol, an exchange and a side, of
  type \<^verbatim>\<open>market\<close> or \<^verbatim>\<open>limit\<close>, whose identifier is not found, stores the payload
  as it is: it keeps the identifier it came with and no catalog is consulted. When no
  Symbol Ledger has its symbol, a new one is appended that holds only the active
  collection the type names, with the payload in it, and neither the other active
  collection nor \<^verbatim>\<open>closed\<close>. When the first Symbol Ledger with its symbol has the
  collection the type names, the payload is appended to that collection (positions for
  \<^verbatim>\<open>market\<close>, orders for \<^verbatim>\<open>limit\<close>, as an insert routes it) and nothing else
  changes.
\<close>

theorem performSaveOperation_not_found:
  assumes "symbol od \<noteq> []" and "exchange od \<noteq> []" and "side od \<noteq> []"
    and "type od = ''market'' \<or> type od = ''limit''"
  shows "fst (performSaveOperation od a) = Saved
    \<and> ((\<forall>s\<in>set (ordersData a). symbol_sd s \<noteq> symbol od) \<longrightarrow>
         ordersData (snd (performSaveOperation od a))
           = ordersData a @
             [\<lparr>symbol_sd = symbol od,
               active = Some \<lparr>orders = (if type od = ''limit'' then Some [od] else None),
                              positions = (if type od = ''market'' then Some [od] else None)\<rparr>,
               closed = None\<rparr>])
    \<and> (ordersData a = pre @ sd # post \<and> (\<forall>s\<in>set pre. symbol_sd s \<noteq> symbol od)
           \<and> symbol_sd sd = symbol od
           \<and> (type od = ''market'' \<and> activePositions sd = Some ps
              \<or> type od = ''limit'' \<and> activeOrders sd = Some ps)
           \<and> oid od \<notin> oid ` set ps \<longrightarrow>
         (\<exists>sd'. ordersData (snd (performSaveOperation od a)) = pre @ sd' # post
            \<and> symbol_sd sd' = symbol_sd sd
            \<and> impliedActive od sd' = ps @ [od]
            \<and> (if type od = ''market'' then ordersOf sd' = ordersOf sd
                else positionsOf sd' = positionsOf sd)
            \<and> closed sd' = closed sd))"
    (is "?saved \<and> ?fresh \<and> ?pushed")
proof -
  have ty: "type od \<noteq> []" using assms(4) by auto
  note eq = ordersData_performSaveOperation [OF assms(1-3) ty]
  have 1: ?saved by (simp add: eq)
  have 2: ?fresh
    using assms(4) by (auto simp: eq saveData_def saveLoop_no_symbol newSymbolData_def)
  have 3: ?pushed
  proof (intro impI, elim conjE)
    assume d: "ordersData a = pre @ sd # post"
      and p: "\<forall>s\<in>set pre. symbol_sd s \<noteq> symbol od"
      and s: "symbol_sd sd = symbol od"
      and c: "type od = ''market'' \<and> activePositions sd = Some ps
              \<or> type od = ''limit'' \<and> activeOrders sd = Some ps"
      and n: "oid od \<notin> oid ` set ps"
    note f = saveInSymbol_absent [OF c n]
    have "ordersData (snd (performSaveOperation od a))
            = pre @ snd (saveInSymbol od sd) # post"
      using f(1) by (simp add: eq saveData_def d saveLoop_first [OF p s])
    with f(2-5) show "\<exists>sd'. ordersData (snd (performSaveOperation od a)) = pre @ sd' # post
            \<and> symbol_sd sd' = symbol_sd sd
            \<and> impliedActive od sd' = ps @ [od]
            \<and> (if type od = ''market'' then ordersOf sd' = ordersOf sd
                else positionsOf sd' = positionsOf sd)
            \<and> closed sd' = closed sd"
      by blast
  qed
  from 1 2 3 show ?thesis by (intro conjI)
qed

lemmas new_defs = saveNewOrder_def formOrder_def validateNewOrder_def maxId_def
  insertOrder_def newSymbolEntry_def addToActive_def allEntries_def entriesOf_def
  ordersOf_def positionsOf_def closedOf_def activeOrders_def activePositions_def Let_def

text \<open>
  C6, as the claim has it, fails. In a ledger that holds order 3 for another symbol, the
  confirmed save of a limit order with identifier 7 keeps 7 and creates a Symbol Ledger
  without \<^verbatim>\<open>positions\<close> and without \<^verbatim>\<open>closed\<close>; the insert of the same order
  assigns 4 and creates all three collections. A payload on an exchange outside the
  catalog is saved by the one and rejected by the other.
\<close>

theorem performSaveOperation_not_found_counterexample:
  "oid (gateEntry (Number (Fin 7)) ''BTC/USDT'' ''limit'')
     \<notin> oid ` set (allEntries (ordersData ethOrderApp))
   \<and> fst (performSaveOperation (gateEntry (Number (Fin 7)) ''BTC/USDT'' ''limit'') ethOrderApp)
       = Saved
   \<and> fst (saveNewOrder (Some btcLimitForm) 1700000000 ethOrderApp) = Saved
   \<and> map oid (allEntries (ordersData (snd (performSaveOperation
        (gateEntry (Number (Fin 7)) ''BTC/USDT'' ''limit'') ethOrderApp))))
       = [Number (Fin 3), Number (Fin 7)]
   \<and> map oid (allEntries (ordersData (snd (saveNewOrder (Some btcLimitForm) 1700000000
        ethOrderApp))))
       = [Number (Fin 3), Number (Fin 4)]
   \<and> map activePositions (ordersData (snd (performSaveOperation
        (gateEntry (Number (Fin 7)) ''BTC/USDT'' ''limit'') ethOrderApp)))
       = [Some [], None]
   \<and> map activePositions (ordersData (snd (saveNewOrder (Some btcLimitForm) 1700000000
        ethOrderApp)))
       = [Some [], Some []]
   \<and> map closed (ordersData (snd (performSaveOperation
        (gateEntry (Number (Fin 7)) ''BTC/USDT'' ''limit'') ethOrderApp)))
       = [Some [], None]
   \<and> map closed (ordersData (snd (saveNewOrder (Some btcLimitForm) 1700000000 ethOrderApp)))
       = [Some [], Some []]
   \<and> fst (performSaveOperation krakenEntry ethOrderApp) = Saved
   \<and> fst (saveNewOrder (Some (btcLimitForm\<lparr>newOrderExchange := ''kraken''\<rparr>)) 1700000000
        ethOrderApp) = Rejected InvalidExchange"
  by (simp add: ethOrderApp_def concrete_defs save_defs new_defs btcLimitForm_def
      krakenEntry_def)

theorem performSaveOperation_not_found_witness:
  "ordersData (snd (performSaveOperation (gateEntry (Number (Fin 7)) ''BTC/USDT'' ''limit'')
       ethOrderApp))
     = ordersData ethOrderApp @
       [\<lparr>symbol_sd = ''BTC/USDT'',
         active = Some \<lparr>orders = Some [gateEntry (Number (Fin 7)) ''BTC/USDT'' ''limit''],
                        positions = None\<rparr>,
         closed = None\<rparr>]
   \<and> (\<exists>sd'. ordersData (snd (performSaveOperation
            (gateEntry (Number (Fin 7)) ''ETH/USDT'' ''limit'') ethOrderApp)) = [] @ sd' # []
          \<and> ordersOf sd' = [gateEntry (Number (Fin 3)) ''ETH/USDT'' ''limit'',
                              gateEntry (Number (Fin 7)) ''ETH/USDT'' ''limit''])"
proof -
  let ?b = "gateEntry (Number (Fin 7)) ''BTC/USDT'' ''limit''"
  let ?e = "gateEntry (Number (Fin 7)) ''ETH/USDT'' ''limit''"
  let ?sd = "hd (ordersData ethOrderApp)"
  have b: "symbol ?b \<noteq> []" "exchange ?b \<noteq> []" "side ?b \<noteq> []"
    "type ?b = ''market'' \<or> type ?b = ''limit''"
    by (simp_all add: gateEntry_def)
  have e: "symbol ?e \<noteq> []" "exchange ?e \<noteq> []" "side ?e \<noteq> []"
    "type ?e = ''market'' \<or> type ?e = ''limit''"
    by (simp_all add: gateEntry_def)
  have nb: "\<forall>s\<in>set (ordersData ethOrderApp). symbol_sd s \<noteq> symbol ?b"
    by (simp add: ethOrderApp_def concrete_defs)
  have pe: "ordersData ethOrderApp = [] @ ?sd # [] \<and> (\<forall>s\<in>set []. symbol_sd s \<noteq> symbol ?e)
      \<and> symbol_sd ?sd = symbol ?e
      \<and> (type ?e = ''market''
            \<and> activePositions ?sd = Some [gateEntry (Number (Fin 3)) ''ETH/USDT'' ''limit'']
          \<or> type ?e = ''limit''
            \<and> activeOrders ?sd = Some [gateEntry (Number (Fin 3)) ''ETH/USDT'' ''limit''])
      \<and> oid ?e \<notin> oid ` set [gateEntry (Number (Fin 3)) ''ETH/USDT'' ''limit'']"
    by (simp add: ethOrderApp_def concrete_defs activeOrders_def)
  have te: "type ?e = ''limit''" "type ?b = ''limit''" by (simp_all add: gateEntry_def)
  have sb: "symbol ?b = ''BTC/USDT''" by (simp add: gateEntry_def)
  from performSaveOperation_not_found [OF b, of ethOrderApp] nb
    performSaveOperation_not_found [OF e, of ethOrderApp "[]" ?sd "[]"
      "[gateEntry (Number (Fin 3)) ''ETH/USDT'' ''limit'']"] pe
  show ?thesis using te sb by (auto simp: impliedActive_def)
qed


section \<open>Validation against the catalog\<close>

text \<open>
  C5, amended. \<^verbatim>\<open>saveNewOrder\<close> rejects an entry whose exchange is not in the catalog
  and leaves the state as it was, whatever the other fields are. On the update path the
  catalog is consulted when an edited row is submitted: \<^verbatim>\<open>saveOrder\<close> then stages
  nothing and leaves the state as it was. \<^verbatim>\<open>performSaveOperation\<close> does not consult
  the catalog: it rejects, leaving the state as it was, exactly the payloads with an
  empty symbol, exchange, side or type, and saves every other payload.
\<close>

theorem exchange_validation:
  "(newOrderExchange f \<notin> set (availableExchanges a) \<longrightarrow>
      saveNewOrder (Some f) now a
        = (Rejected (if newOrderSymbol f = [] \<or> newOrderExchange f = []
                        \<or> newOrderSide f = [] \<or> newOrderType f = []
                     then MissingRequiredFields else InvalidExchange), a))
   \<and> (find (\<lambda>sd. symbol_sd sd = sy) (ordersData a) = Some sd \<and> rowOrder sd ty i = Some order
        \<and> \<not> noInputs r \<and> exchange (updatedOrder r order) \<notin> set (availableExchanges a) \<longrightarrow>
      saveOrder sy ty i (Some r) a = a)
   \<and> (symbol od = [] \<or> exchange od = [] \<or> side od = [] \<or> type od = [] \<longrightarrow>
      performSaveOperation od a = (Rejected MissingRequiredFields, a))
   \<and> (symbol od \<noteq> [] \<and> exchange od \<noteq> [] \<and> side od \<noteq> [] \<and> type od \<noteq> [] \<longrightarrow>
      fst (performSaveOperation od a) = Saved)"
  by (simp add: saveNewOrder_def validateNewOrder_def formOrder_def saveOrder_def
      performSaveOperation_def Let_def)

text \<open>
  C5, as the claim has it, fails for the confirmed save: a payload for position 1 on an
  exchange the catalog does not list is saved, and replaces the position.
\<close>

theorem exchange_validation_counterexample:
  "exchange krakenEntry \<notin> set (availableExchanges onePositionApp)
   \<and> fst (performSaveOperation krakenEntry onePositionApp) = Saved
   \<and> ordersData (snd (performSaveOperation krakenEntry onePositionApp))
       \<noteq> ordersData onePositionApp
   \<and> map (map exchange \<circ> positionsOf)
        (ordersData (snd (performSaveOperation krakenEntry onePositionApp))) = [ [''kraken''] ]"
  by (simp add: krakenEntry_def concrete_defs save_defs positionsOf_def)

theorem exchange_validation_witness:
  "saveNewOrder (Some (btcLimitForm\<lparr>newOrderExchange := ''kraken''\<rparr>)) 1700000000 initialApp
     = (Rejected InvalidExchange, initialApp)
   \<and> saveOrder ''BTC/USDT'' ''orders'' 0 (Some krakenRow) ordersOnlyApp = ordersOnlyApp
   \<and> performSaveOperation (krakenEntry\<lparr>side := []\<rparr>) onePositionApp
       = (Rejected MissingRequiredFields, onePositionApp)
   \<and> fst (performSaveOperation krakenEntry onePositionApp) = Saved"
  using exchange_validation [of "btcLimitForm\<lparr>newOrderExchange := ''kraken''\<rparr>" initialApp
      1700000000 "''BTC/USDT''" _ _ _ _ _ "krakenEntry\<lparr>side := []\<rparr>"]
    exchange_validation [of _ ordersOnlyApp _ "''BTC/USDT''" "hd (ordersData ordersOnlyApp)"
      "''orders''" 0 "gateEntry (Number (Fin 1)) ''BTC/USDT'' ''limit''" krakenRow krakenEntry]
    exchange_validation [of _ onePositionApp _ _ _ _ _ _ _ "krakenEntry\<lparr>side := []\<rparr>"]
    exchange_validation [of _ onePositionApp _ _ _ _ _ _ _ krakenEntry]
  by (simp add: btcLimitForm_def concrete_defs ordersOnlyApp_def krakenRow_def toMarketRow_def
      krakenEntry_def rowOrder_def elemAt_def activeOrders_def noInputs_def updatedOrder_def)

section \<open>The date filter\<close>

text \<open>
  C8, as the claim has it, fails: an entry stamped 2023-11-14 22:13:20 is on day
  2023-11-14 (day 19675), and with that day as \<^verbatim>\<open>dateTo\<close> the filter leaves it out
  (here in a zone on UTC; the hour at which entries of the day start to be left out
  moves with the zone).
\<close>

theorem dateTo_counterexample:
  "date (gateEntry (Number (Fin 1)) ''BTC/USDT'' ''limit'') = Some 1700000000
   \<and> dayOf 1700000000 = 19675
   \<and> \<not> shown 0 [] None (Some 19675) (gateEntry (Number (Fin 1)) ''BTC/USDT'' ''limit'')
   \<and> loadOrdersGroup True 0 [gateEntry (Number (Fin 1)) ''BTC/USDT'' ''limit''] None
        (Some 19675) [] = []"
  by (simp add: gateEntry_def dayOf_def shown_def loadOrdersGroup_def dateTimeInstant_def
      dateOnlyInstant_def)

lemma day_split: "t = dayOf t * 86400 + timeOfDay t"
  by (simp add: dayOf_def timeOfDay_def)

lemma timeOfDay_range: "0 \<le> timeOfDay t" "timeOfDay t < 86400"
  by (simp_all add: timeOfDay_def)

text \<open>
  C8, amended. The filter compares instants, not calendar dates. With \<^verbatim>\<open>dateTo\<close> set
  to day \<open>D\<close> an entry is shown when it passes the other tests and either has no date or
  its timestamp, read as local time, is not later than 00:00 UTC of \<open>D\<close>. In a zone on
  UTC that is: every entry of an earlier day, and of the entries of day \<open>D\<close> itself only
  those stamped 00:00:00.
\<close>

theorem dateTo_compares_instants:
  "(shown tz ef df (Some D) item
      \<longleftrightarrow> shown tz ef df None item
          \<and> (case date item of None \<Rightarrow> True | Some t \<Rightarrow> t - tz \<le> D * 86400))
   \<and> (date item = Some t \<and> dayOf t = D \<longrightarrow>
        (shown 0 ef df (Some D) item \<longleftrightarrow> shown 0 ef df None item \<and> timeOfDay t = 0))
   \<and> (date item = Some t \<and> dayOf t < D \<longrightarrow>
        (shown 0 ef df (Some D) item \<longleftrightarrow> shown 0 ef df None item))"
proof -
  have a: "shown tz ef df (Some D) item
      \<longleftrightarrow> shown tz ef df None item
          \<and> (case date item of None \<Rightarrow> True | Some t \<Rightarrow> t - tz \<le> D * 86400)" for tz
    by (auto simp: shown_def dateTimeInstant_def dateOnlyInstant_def split: option.splits)
  have b: "t \<le> D * 86400 \<longleftrightarrow> timeOfDay t = 0" if "dayOf t = D"
    using that day_split [of t] timeOfDay_range [of t] by auto
  have c: "t \<le> D * 86400" if "dayOf t < D"
  proof -
    from that have "dayOf t + 1 \<le> D" by simp
    then have "(dayOf t + 1) * 86400 \<le> D * 86400"
      by (simp only: mult_right_mono zero_le_numeral)
    then show ?thesis
      using day_split [of t] timeOfDay_range [of t] by (simp add: algebra_simps)
  qed
  show ?thesis using a [of tz] a [of 0] b c by auto
qed

theorem dateTo_compares_instants_witness:
  "(shown 0 [] None (Some 19675) ((gateEntry Null ''BTC/USDT'' ''limit'')\<lparr>date := Some 1699920000\<rparr>)
      \<longleftrightarrow> True)
   \<and> (shown 0 [] None (Some 19676) (gateEntry Null ''BTC/USDT'' ''limit'') \<longleftrightarrow> True)
   \<and> (shown 0 [] None (Some 19675) (gateEntry Null ''BTC/USDT'' ''limit'') \<longleftrightarrow> False)"
  using dateTo_compares_instants [of 0 "[]" None 19675
      "(gateEntry Null ''BTC/USDT'' ''limit'')\<lparr>date := Some 1699920000\<rparr>" 1699920000]
    dateTo_compares_instants [of 0 "[]" None 19676 "gateEntry Null ''BTC/USDT'' ''limit''"
      1700000000]
    dateTo_compares_instants [of 0 "[]" None 19675 "gateEntry Null ''BTC/USDT'' ''limit''"
      1700000000]
  by (simp add: gateEntry_def dayOf_def timeOfDay_def shown_def)

section \<open>Closed collections only grow\<close>

subsection \<open>One Symbol Ledger\<close>









subsection \<open>The ledger\<close>




















subsection \<open>New identifiers\<close>









lemma plus1_exact:
  "- 9007199254740992 \<le> m \<Longrightarrow> m < 9007199254740992 \<Longrightarrow> plus1 (Fin m) = Fin (m + 1)"
  by simp

subsection \<open>What a handler does to the ledger and to the staged operation\<close>







lemma jsonId_finite: "jsonId i \<noteq> Number NegInfinity"
  by (cases i rule: jsonId.cases) auto








subsection \<open>Identifiers of the ledger\<close>



lemma oid_stamped: "oid (od\<lparr>close_date := c\<rparr>) = oid od"
  by simp





subsection \<open>One event\<close>









subsection \<open>Any sequence of events without a load\<close>










end
